theory Spec2Isabelle
  imports Main
begin

section \<open>The desk client of the branded email app\<close>

text \<open>
  The repository's client code lives in three scripts: \<^verbatim>\<open>send_email_button.js\<close>, an
  unnamed second script holding another version of the same functions, and
  \<^verbatim>\<open>email_service_settings.js\<close>. The scripts run against the form framework:
  a form \<^verbatim>\<open>frm\<close> with its custom buttons, the page on which prompts, dialogs and
  messages appear, and remote methods reached through \<^verbatim>\<open>frappe.call\<close>. The framework
  and the remote methods are not part of the scripts. Here the page and the
  form's buttons are an explicit state that every function takes and returns, the
  replies of the remote methods are parameters, and the translation lookup
  \<^verbatim>\<open>__\<close> is a parameter \<open>tr\<close>.
\<close>

subsection \<open>Documents, forms and stored communications\<close>

record doc =
  name :: string
  docstatus :: int

record form =
  doctype :: string
  doc :: doc

text \<open>
  Modelled from the spec: the status of a send record (\<open>Success\<close> or \<open>Failed\<close>); the
  declaration of the stored Communication rows is not among the scripts. The
  other four fields are the ones the scripts filter on.
\<close>

datatype send_status = Success | Failed

record communication =
  reference_doctype :: string
  reference_name :: string
  communication_medium :: string
  sent_or_received :: string
  status :: send_status

text \<open>The \<^verbatim>\<open>filters\<close> object passed to \<^verbatim>\<open>frappe.client.get_count\<close>.\<close>

record count_filters =
  f_reference_doctype :: string
  f_reference_name :: string
  f_communication_medium :: string
  f_sent_or_received :: string

definition matches :: "count_filters \<Rightarrow> communication \<Rightarrow> bool" where
  "matches f c \<longleftrightarrow>
     reference_doctype c = f_reference_doctype f \<and>
     reference_name c = f_reference_name f \<and>
     communication_medium c = f_communication_medium f \<and>
     sent_or_received c = f_sent_or_received f"

text \<open>\<^verbatim>\<open>frappe.client.get_count\<close>: the number of stored rows that agree with every filter.\<close>

definition get_count :: "communication list \<Rightarrow> count_filters \<Rightarrow> nat" where
  "get_count cs f = length (filter (matches f) cs)"

subsection \<open>Remote methods\<close>

text \<open>
  The value of \<^verbatim>\<open>r.message\<close> in a callback is \<open>None\<close> when the reply carries no
  message, and the returned object otherwise.
\<close>

record enabled_reply =
  enabled :: bool

text \<open>
  A property that is meant to hold a string can also be missing or \<^verbatim>\<open>null\<close> in the
  object received; reading a missing property gives \<^verbatim>\<open>undefined\<close>.
\<close>

datatype js_string = Undefined | Null | Str string

text \<open>The expression \<^verbatim>\<open>v || ""\<close>: every falsy value becomes the empty string.\<close>

definition or_empty :: "js_string \<Rightarrow> string" where
  "or_empty v = (case v of Str x \<Rightarrow> x | Null \<Rightarrow> '''' | Undefined \<Rightarrow> '''')"

record recipient_reply =
  email :: js_string

record defaults_reply =
  r_recipient_field :: js_string
  r_recipient_doctype :: js_string
  r_source_app :: js_string

record send_reply =
  success :: bool
  message :: string

record server =
  api_check_doctype_email_enabled :: "string \<Rightarrow> enabled_reply option"
  communications :: "communication list"
  api_get_document_recipient :: "string \<Rightarrow> string \<Rightarrow> recipient_reply option"
  api_send_document_email ::
    "string \<Rightarrow> string \<Rightarrow> string \<Rightarrow> string option \<Rightarrow> string option \<Rightarrow> send_reply option"

datatype remote_call =
    CheckDoctypeEmailEnabled string
  | GetCount count_filters
  | GetDocumentRecipient string string
  | SendDocumentEmail string string string "string option" "string option"

text \<open>
  Modelled from the spec: the server methods behind the remote calls are not among
  the scripts. Of them only \<^verbatim>\<open>emails.api.send_document_email\<close> dispatches an email
  and stores a send record; the eligibility check, the count and the recipient
  lookup are queries without side effects.
\<close>

fun writes :: "remote_call \<Rightarrow> bool" where
  "writes (SendDocumentEmail dt dn to_addr cc_addr msg) = True"
| "writes (CheckDoctypeEmailEnabled dt) = False"
| "writes (GetCount f) = False"
| "writes (GetDocumentRecipient dt dn) = False"

subsection \<open>The page\<close>

datatype action = ShowSendEmailDialog | DoNothing

record confirm =
  question :: string
  on_yes :: action
  on_no :: action

text \<open>
  A field of a dialog; \<^verbatim>\<open>default_value\<close> is the property \<^verbatim>\<open>default\<close>, which reads
  \<^verbatim>\<open>undefined\<close> for a field declared without it.
\<close>

record dialog_field =
  fieldname :: string
  fieldtype :: string
  label :: string
  reqd :: bool
  default_value :: js_string
  options :: "string option"

record dialog =
  title :: string
  dialog_fields :: "dialog_field list"
  primary_action_label :: string

record alert =
  alert_message :: string
  alert_indicator :: string

record msgprint =
  msg_title :: string
  msg_message :: string
  msg_indicator :: string

record desk =
  custom_buttons :: "(string \<times> action) list"
  confirms :: "confirm list"
  dialogs :: "dialog list"
  alerts :: "alert list"
  msgprints :: "msgprint list"
  reloads :: nat
  calls :: "remote_call list"

text \<open>
  The framework's operations on the page. Custom buttons are kept in the order in
  which they were added; \<^verbatim>\<open>remove_custom_button\<close> takes away every button carrying
  the label, \<^verbatim>\<open>add_custom_button\<close> appends one.
\<close>

definition remove_custom_button :: "string \<Rightarrow> desk \<Rightarrow> desk" where
  "remove_custom_button l s = s\<lparr>custom_buttons := filter (\<lambda>b. fst b \<noteq> l) (custom_buttons s)\<rparr>"

definition add_custom_button :: "string \<Rightarrow> action \<Rightarrow> desk \<Rightarrow> desk" where
  "add_custom_button l a s = s\<lparr>custom_buttons := custom_buttons s @ [(l, a)]\<rparr>"

definition frappe_call :: "remote_call \<Rightarrow> desk \<Rightarrow> desk" where
  "frappe_call c s = s\<lparr>calls := calls s @ [c]\<rparr>"

definition frappe_confirm :: "string \<Rightarrow> action \<Rightarrow> action \<Rightarrow> desk \<Rightarrow> desk" where
  "frappe_confirm q y n s =
     s\<lparr>confirms := confirms s @ [\<lparr>question = q, on_yes = y, on_no = n\<rparr>]\<rparr>"

definition dialog_show :: "dialog \<Rightarrow> desk \<Rightarrow> desk" where
  "dialog_show d s = s\<lparr>dialogs := dialogs s @ [d]\<rparr>"

definition show_alert :: "alert \<Rightarrow> desk \<Rightarrow> desk" where
  "show_alert a s = s\<lparr>alerts := alerts s @ [a]\<rparr>"

definition frappe_msgprint :: "msgprint \<Rightarrow> desk \<Rightarrow> desk" where
  "frappe_msgprint m s = s\<lparr>msgprints := msgprints s @ [m]\<rparr>"

definition reload_doc :: "desk \<Rightarrow> desk" where
  "reload_doc s = s\<lparr>reloads := Suc (reloads s)\<rparr>"

subsection \<open>\<^verbatim>\<open>send_email_button.js\<close>\<close>

definition SUPPORTED_DOCTYPES :: "string list" where
  "SUPPORTED_DOCTYPES =
     [''Quotation'', ''Sales Order'', ''Payment Entry'', ''Purchase Order'', ''Payment Request'']"

text \<open>
  The filter object that \<^verbatim>\<open>check_email_sent\<close> and \<^verbatim>\<open>setup_send_email_button\<close>
  both write out.
\<close>

definition sent_filters :: "form \<Rightarrow> count_filters" where
  "sent_filters frm =
     \<lparr>f_reference_doctype = doctype frm,
      f_reference_name = name (doc frm),
      f_communication_medium = ''Email'',
      f_sent_or_received = ''Sent''\<rparr>"

text \<open>
  \<^verbatim>\<open>check_email_sent\<close> resolves its promise inside the callback of a synchronous
  call; the model returns the resolved value with the page.
\<close>

definition check_email_sent :: "server \<Rightarrow> form \<Rightarrow> desk \<Rightarrow> bool \<times> desk" where
  "check_email_sent srv frm s =
     (0 < get_count (communications srv) (sent_filters frm),
      frappe_call (GetCount (sent_filters frm)) s)"

text \<open>The test \<^verbatim>\<open>r.message && r.message.enabled\<close>.\<close>

definition reply_enabled :: "enabled_reply option \<Rightarrow> bool" where
  "reply_enabled r = (case r of None \<Rightarrow> False | Some m \<Rightarrow> enabled m)"

text \<open>
  Both remote calls of \<^verbatim>\<open>setup_send_email_button\<close> are made with
  \<^verbatim>\<open>async: false\<close>, so the callbacks have run when the function returns.
\<close>

definition setup_send_email_button ::
  "(string \<Rightarrow> string) \<Rightarrow> server \<Rightarrow> form \<Rightarrow> desk \<Rightarrow> desk" where
  "setup_send_email_button tr srv frm s =
     (if docstatus (doc frm) \<noteq> 1 then s
      else if doctype frm \<notin> set SUPPORTED_DOCTYPES then s
      else
        let s1 = remove_custom_button (tr ''Send Email'') s;
            s2 = remove_custom_button (tr ''Resend Email'') s1;
            s3 = frappe_call (CheckDoctypeEmailEnabled (doctype frm)) s2
        in if reply_enabled (api_check_doctype_email_enabled srv (doctype frm)) then
             let s4 = frappe_call (GetCount (sent_filters frm)) s3;
                 email_sent = (0 < get_count (communications srv) (sent_filters frm));
                 button_label = (if email_sent then tr ''Resend Email'' else tr ''Send Email'')
             in add_custom_button button_label ShowSendEmailDialog s4
           else s3)"

definition prompt_send_email_after_submit ::
  "(string \<Rightarrow> string) \<Rightarrow> server \<Rightarrow> form \<Rightarrow> desk \<Rightarrow> desk" where
  "prompt_send_email_after_submit tr srv frm s =
     (if doctype frm \<notin> set SUPPORTED_DOCTYPES then s
      else
        let s1 = frappe_call (CheckDoctypeEmailEnabled (doctype frm)) s
        in if reply_enabled (api_check_doctype_email_enabled srv (doctype frm)) then
             frappe_confirm (tr ''Would you like to send an email to the customer?'')
               ShowSendEmailDialog DoNothing s1
           else s1)"

definition show_send_email_dialog ::
  "(string \<Rightarrow> string) \<Rightarrow> server \<Rightarrow> form \<Rightarrow> desk \<Rightarrow> desk" where
  "show_send_email_dialog tr srv frm s =
     (let s1 = frappe_call (GetDocumentRecipient (doctype frm) (name (doc frm))) s;
          default_email =
            (case api_get_document_recipient srv (doctype frm) (name (doc frm)) of
               None \<Rightarrow> Str ''''
             | Some m \<Rightarrow> email m);
          dialog =
            \<lparr>title = tr ''Send Email via Resend'',
             dialog_fields =
               [\<lparr>fieldname = ''to_email'', fieldtype = ''Data'',
                 label = tr ''Recipient Email'', reqd = True,
                 default_value = default_email, options = Some ''Email''\<rparr>,
                \<lparr>fieldname = ''cc'', fieldtype = ''Data'',
                 label = tr ''CC'', reqd = False,
                 default_value = Undefined, options = Some ''Email''\<rparr>,
                \<lparr>fieldname = ''custom_message'', fieldtype = ''Small Text'',
                 label = tr ''Additional Message (Optional)'', reqd = False,
                 default_value = Undefined, options = None\<rparr>],
             primary_action_label = tr ''Send''\<rparr>
      in dialog_show dialog s1)"

text \<open>The values the operator confirms in the dialog.\<close>

record dialog_values =
  to_email :: string
  cc :: "string option"
  custom_message :: "string option"

definition send_document_email ::
  "(string \<Rightarrow> string) \<Rightarrow> server \<Rightarrow> form \<Rightarrow> dialog_values \<Rightarrow> desk \<Rightarrow> desk" where
  "send_document_email tr srv frm values s =
     (let s1 = frappe_call
            (SendDocumentEmail (doctype frm) (name (doc frm)) (to_email values) (cc values)
               (custom_message values)) s;
          r = api_send_document_email srv (doctype frm) (name (doc frm)) (to_email values)
                (cc values) (custom_message values)
      in if (case r of None \<Rightarrow> False | Some m \<Rightarrow> success m) then
           reload_doc
             (show_alert
                \<lparr>alert_message = tr ''Email sent successfully'', alert_indicator = ''green''\<rparr> s1)
         else
           frappe_msgprint
             \<lparr>msg_title = tr ''Email Failed'',
              msg_message = (case r of None \<Rightarrow> tr ''Unknown error'' | Some m \<Rightarrow> message m),
              msg_indicator = ''red''\<rparr> s1)"

subsection \<open>The unnamed script\<close>

definition SUPPORTED_DOCTYPES_part_000 :: "string list" where
  "SUPPORTED_DOCTYPES_part_000 =
     [''Sales Invoice'', ''Quotation'', ''Sales Order'', ''Delivery Note'', ''Payment Entry'',
      ''Purchase Order'', ''Payment Request'']"

text \<open>
  This version makes its remote call asynchronously; the model gives the page
  once the callback has run.
\<close>

definition setup_send_email_button_part_000 ::
  "(string \<Rightarrow> string) \<Rightarrow> server \<Rightarrow> form \<Rightarrow> desk \<Rightarrow> desk" where
  "setup_send_email_button_part_000 tr srv frm s =
     (if docstatus (doc frm) \<noteq> 1 then s
      else if doctype frm \<notin> set SUPPORTED_DOCTYPES_part_000 then s
      else
        let s1 = frappe_call (CheckDoctypeEmailEnabled (doctype frm)) s
        in if reply_enabled (api_check_doctype_email_enabled srv (doctype frm)) then
             add_custom_button (tr ''Send Email'') ShowSendEmailDialog s1
           else s1)"

subsection \<open>\<^verbatim>\<open>email_service_settings.js\<close>\<close>

text \<open>
  A row of the settings table \<^verbatim>\<open>supported_doctypes\<close>; an unset link field holds the
  empty string. A stored print format carries the two fields the query filters on.
\<close>

record configuration_row =
  doctype_name :: string
  print_format :: string
  recipient_field :: string
  recipient_doctype :: string
  source_app :: string

record print_format_doc =
  pf_name :: string
  doc_type :: string
  disabled :: int

record print_format_filters =
  f_doc_type :: string
  f_disabled :: int

text \<open>
  The query function installed by \<^verbatim>\<open>onload\<close> for the field \<^verbatim>\<open>print_format\<close>: it
  returns a filter object, or the empty object \<open>None\<close> when the row names no
  document type.
\<close>

definition print_format_query :: "configuration_row \<Rightarrow> print_format_filters option" where
  "print_format_query row =
     (if doctype_name row \<noteq> '''' then
        Some \<lparr>f_doc_type = doctype_name row, f_disabled = 0\<rparr>
      else None)"

text \<open>
  The framework offers for the link field the stored print formats that agree
  with every filter of the query; an empty query leaves all of them.
\<close>

definition print_format_choices ::
  "print_format_doc list \<Rightarrow> configuration_row \<Rightarrow> print_format_doc list" where
  "print_format_choices pfs row =
     (case print_format_query row of
        None \<Rightarrow> pfs
      | Some f \<Rightarrow> filter (\<lambda>p. doc_type p = f_doc_type f \<and> disabled p = f_disabled f) pfs)"

text \<open>
  The operator fills the link field by picking one of the print formats offered
  for the row; the field then holds the name of the format picked. A format that
  is not offered cannot be picked.
\<close>

definition pick_print_format ::
  "print_format_doc list \<Rightarrow> print_format_doc \<Rightarrow> configuration_row \<Rightarrow> configuration_row option"
  where
  "pick_print_format pfs p row =
     (if p \<in> set (print_format_choices pfs row) then Some (row\<lparr>print_format := pf_name p\<rparr>)
      else None)"

text \<open>
  The handler of the row's \<^verbatim>\<open>doctype_name\<close> field, run on the row that already holds
  the new value; the reply of the remote method \<^verbatim>\<open>get_doctype_defaults\<close> is a
  parameter, and the row is given as it is once the callback has run.
\<close>

definition doctype_name_changed ::
  "(string \<Rightarrow> defaults_reply option) \<Rightarrow> configuration_row \<Rightarrow> configuration_row" where
  "doctype_name_changed get_doctype_defaults row =
     (if doctype_name row = '''' then row
      else
        case get_doctype_defaults (doctype_name row) of
          None \<Rightarrow> row
        | Some m \<Rightarrow>
            row\<lparr>recipient_field := or_empty (r_recipient_field m),
                recipient_doctype := or_empty (r_recipient_doctype m),
                source_app := or_empty (r_source_app m)\<rparr>)"

text \<open>
  The specification's invariant on a configuration row: the print format, when
  set, is a stored format of the row's document type.
\<close>

definition spec_printFormat_belongs :: "print_format_doc list \<Rightarrow> configuration_row \<Rightarrow> bool" where
  "spec_printFormat_belongs pfs row \<longleftrightarrow>
     print_format row = '''' \<or>
     list_ex (\<lambda>p. pf_name p = print_format row \<and> doc_type p = doctype_name row) pfs"

subsection \<open>Repeated refreshes of one form\<close>

text \<open>
  The \<^verbatim>\<open>refresh\<close> hook calls \<^verbatim>\<open>setup_send_email_button\<close>. Between two refreshes
  the server and the document may have changed; the form's document type has not.
\<close>

fun refreshes :: "(string \<Rightarrow> string) \<Rightarrow> string \<Rightarrow> (server \<times> doc) list \<Rightarrow> desk \<Rightarrow> desk" where
  "refreshes tr dt [] s = s"
| "refreshes tr dt ((srv, d) # rest) s =
     refreshes tr dt rest (setup_send_email_button tr srv \<lparr>doctype = dt, doc = d\<rparr> s)"

text \<open>The buttons of a page that carry one of the two send labels.\<close>

definition send_buttons :: "(string \<Rightarrow> string) \<Rightarrow> desk \<Rightarrow> (string \<times> action) list" where
  "send_buttons tr s =
     filter (\<lambda>b. fst b = tr ''Send Email'' \<or> fst b = tr ''Resend Email'') (custom_buttons s)"

subsection \<open>The send-history signal in the words of the specification\<close>

text \<open>
  The specification's \<open>hasSuccessfulSend\<close>: some stored record of the pair has
  status \<open>Success\<close>, medium \<open>Email\<close> and direction \<open>Sent\<close>.
\<close>

definition spec_hasSuccessfulSend :: "communication list \<Rightarrow> string \<Rightarrow> string \<Rightarrow> bool" where
  "spec_hasSuccessfulSend cs dt dn =
     list_ex (\<lambda>c. status c = Success \<and> communication_medium c = ''Email'' \<and>
                  sent_or_received c = ''Sent'' \<and> reference_doctype c = dt \<and>
                  reference_name c = dn) cs"

subsection \<open>Concrete forms, servers and pages\<close>

definition quotation_form :: form where
  "quotation_form = \<lparr>doctype = ''Quotation'', doc = \<lparr>name = ''QTN-001'', docstatus = 1\<rparr>\<rparr>"

definition draft_quotation_form :: form where
  "draft_quotation_form = \<lparr>doctype = ''Quotation'', doc = \<lparr>name = ''QTN-002'', docstatus = 0\<rparr>\<rparr>"

definition invoice_form :: form where
  "invoice_form = \<lparr>doctype = ''Sales Invoice'', doc = \<lparr>name = ''SINV-001'', docstatus = 1\<rparr>\<rparr>"

definition issue_form :: form where
  "issue_form = \<lparr>doctype = ''Issue'', doc = \<lparr>name = ''ISS-001'', docstatus = 1\<rparr>\<rparr>"

definition sent_record :: "send_status \<Rightarrow> communication" where
  "sent_record st =
     \<lparr>reference_doctype = ''Quotation'', reference_name = ''QTN-001'',
      communication_medium = ''Email'', sent_or_received = ''Sent'', status = st\<rparr>"

text \<open>
  A server on which every document type is enabled, that knows no recipient and
  whose dispatch answers with the given reply.
\<close>

definition enabled_server :: "communication list \<Rightarrow> send_reply option \<Rightarrow> server" where
  "enabled_server cs reply =
     \<lparr>api_check_doctype_email_enabled = (\<lambda>dt. Some \<lparr>enabled = True\<rparr>),
      communications = cs,
      api_get_document_recipient = (\<lambda>dt dn. None),
      api_send_document_email = (\<lambda>dt dn to_addr cc_addr msg. reply)\<rparr>"

definition disabled_server :: server where
  "disabled_server =
     \<lparr>api_check_doctype_email_enabled = (\<lambda>dt. Some \<lparr>enabled = False\<rparr>),
      communications = [],
      api_get_document_recipient = (\<lambda>dt dn. None),
      api_send_document_email = (\<lambda>dt dn to_addr cc_addr msg. None)\<rparr>"

text \<open>The translation lookup of a session in the source language.\<close>

definition untranslated :: "string \<Rightarrow> string" where
  "untranslated l = l"

definition empty_desk :: desk where
  "empty_desk =
     \<lparr>custom_buttons = [], confirms = [], dialogs = [], alerts = [], msgprints = [],
      reloads = 0, calls = []\<rparr>"


definition old_order_layout :: print_format_doc where
  "old_order_layout = \<lparr>pf_name = ''Old Order Layout'', doc_type = ''Sales Order'', disabled = 1\<rparr>"

definition order_layout :: print_format_doc where
  "order_layout = \<lparr>pf_name = ''Order Layout'', doc_type = ''Sales Order'', disabled = 0\<rparr>"

definition quotation_bold :: print_format_doc where
  "quotation_bold = \<lparr>pf_name = ''Quotation Bold'', doc_type = ''Quotation'', disabled = 0\<rparr>"

definition quotation_draft :: print_format_doc where
  "quotation_draft = \<lparr>pf_name = ''Quotation Draft'', doc_type = ''Quotation'', disabled = 1\<rparr>"

definition stored_formats :: "print_format_doc list" where
  "stored_formats = [old_order_layout, order_layout, quotation_bold, quotation_draft]"

text \<open>A row for the given document type with the given print format and nothing else.\<close>

definition plain_row :: "string \<Rightarrow> string \<Rightarrow> configuration_row" where
  "plain_row dt pf =
     \<lparr>doctype_name = dt, print_format = pf, recipient_field = '''', recipient_doctype = '''',
      source_app = ''''\<rparr>"

definition contact_defaults :: "string \<Rightarrow> defaults_reply option" where
  "contact_defaults dt =
     Some \<lparr>r_recipient_field = Str ''contact_email'', r_recipient_doctype = Null,
           r_source_app = Str ''erpnext''\<rparr>"

definition buyer_values :: dialog_values where
  "buyer_values = \<lparr>to_email = ''buyer@example.com'', cc = None, custom_message = None\<rparr>"

section \<open>Properties\<close>

subsection \<open>Unfolding the page operations and the concrete inputs\<close>

lemmas page_defs = remove_custom_button_def add_custom_button_def frappe_call_def
  frappe_confirm_def dialog_show_def show_alert_def frappe_msgprint_def reload_doc_def

lemmas example_defs = quotation_form_def draft_quotation_form_def invoice_form_def
  issue_form_def sent_record_def enabled_server_def disabled_server_def empty_desk_def
  buyer_values_def untranslated_def

lemma get_count_pos:
  "0 < get_count cs f \<longleftrightarrow> (\<exists>c \<in> set cs. matches f c)"
  by (simp add: get_count_def filter_empty_conv)

subsection \<open>The three outcomes of \<^verbatim>\<open>setup_send_email_button\<close>\<close>

lemma setup_not_submitted:
  "docstatus (doc frm) \<noteq> 1 \<Longrightarrow> setup_send_email_button tr srv frm s = s"
  by (simp add: setup_send_email_button_def)

lemma setup_unsupported:
  "doctype frm \<notin> set SUPPORTED_DOCTYPES \<Longrightarrow> setup_send_email_button tr srv frm s = s"
  by (simp add: setup_send_email_button_def)

lemma setup_disabled:
  assumes "docstatus (doc frm) = 1" and "doctype frm \<in> set SUPPORTED_DOCTYPES"
    and "\<not> reply_enabled (api_check_doctype_email_enabled srv (doctype frm))"
  shows "setup_send_email_button tr srv frm s =
           s\<lparr>custom_buttons :=
                filter (\<lambda>b. fst b \<noteq> tr ''Resend Email'')
                  (filter (\<lambda>b. fst b \<noteq> tr ''Send Email'') (custom_buttons s)),
              calls := calls s @ [CheckDoctypeEmailEnabled (doctype frm)]\<rparr>"
  using assms by (simp add: setup_send_email_button_def Let_def page_defs)

lemma setup_enabled:
  assumes "docstatus (doc frm) = 1" and "doctype frm \<in> set SUPPORTED_DOCTYPES"
    and "reply_enabled (api_check_doctype_email_enabled srv (doctype frm))"
  shows "setup_send_email_button tr srv frm s =
           s\<lparr>custom_buttons :=
                filter (\<lambda>b. fst b \<noteq> tr ''Resend Email'')
                  (filter (\<lambda>b. fst b \<noteq> tr ''Send Email'') (custom_buttons s)) @
                [(if 0 < get_count (communications srv) (sent_filters frm)
                  then tr ''Resend Email'' else tr ''Send Email'', ShowSendEmailDialog)],
              calls := calls s @ [CheckDoctypeEmailEnabled (doctype frm),
                                  GetCount (sent_filters frm)]\<rparr>"
  using assms by (simp add: setup_send_email_button_def Let_def page_defs)

subsection \<open>The already-sent signal\<close>

text \<open>
  C1, as the scripts have it. The signal of \<^verbatim>\<open>check_email_sent\<close> is true exactly
  when the store holds a communication of the document with medium \<open>Email\<close> and
  direction \<open>Sent\<close>; the status of the record is not looked at. A successful send
  record of the document therefore gives true, and for an eligible document the
  button that \<^verbatim>\<open>setup_send_email_button\<close> adds is labelled by this signal.
\<close>

theorem check_email_sent_iff:
  "(fst (check_email_sent srv frm s) \<longleftrightarrow>
      (\<exists>c \<in> set (communications srv).
         reference_doctype c = doctype frm \<and> reference_name c = name (doc frm) \<and>
         communication_medium c = ''Email'' \<and> sent_or_received c = ''Sent'')) \<and>
   (spec_hasSuccessfulSend (communications srv) (doctype frm) (name (doc frm)) \<longrightarrow>
      fst (check_email_sent srv frm s)) \<and>
   (docstatus (doc frm) = 1 \<and> doctype frm \<in> set SUPPORTED_DOCTYPES \<and>
    reply_enabled (api_check_doctype_email_enabled srv (doctype frm)) \<longrightarrow>
      fst (last (custom_buttons (setup_send_email_button tr srv frm s))) =
        (if fst (check_email_sent srv frm s) then tr ''Resend Email'' else tr ''Send Email''))"
proof -
  have sig: "fst (check_email_sent srv frm s) \<longleftrightarrow>
      (\<exists>c \<in> set (communications srv).
         reference_doctype c = doctype frm \<and> reference_name c = name (doc frm) \<and>
         communication_medium c = ''Email'' \<and> sent_or_received c = ''Sent'')"
    by (simp add: check_email_sent_def get_count_pos matches_def sent_filters_def)
  have spec: "spec_hasSuccessfulSend (communications srv) (doctype frm) (name (doc frm)) \<longrightarrow>
      fst (check_email_sent srv frm s)"
    unfolding sig by (auto simp: spec_hasSuccessfulSend_def list_ex_iff)
  have lab: "docstatus (doc frm) = 1 \<and> doctype frm \<in> set SUPPORTED_DOCTYPES \<and>
    reply_enabled (api_check_doctype_email_enabled srv (doctype frm)) \<longrightarrow>
      fst (last (custom_buttons (setup_send_email_button tr srv frm s))) =
        (if fst (check_email_sent srv frm s) then tr ''Resend Email'' else tr ''Send Email'')"
    by (simp add: setup_enabled check_email_sent_def)
  from sig spec lab show ?thesis by blast
qed

theorem check_email_sent_iff_witness:
  "fst (check_email_sent (enabled_server [sent_record Success] None) quotation_form empty_desk) \<and>
   \<not> fst (check_email_sent (enabled_server [sent_record Success] None) draft_quotation_form
          empty_desk) \<and>
   fst (last (custom_buttons (setup_send_email_button untranslated
     (enabled_server [sent_record Success] None) quotation_form empty_desk))) = ''Resend Email''"
  using check_email_sent_iff [of "enabled_server [sent_record Success] None" quotation_form
      empty_desk untranslated]
    check_email_sent_iff [of "enabled_server [sent_record Success] None" draft_quotation_form
      empty_desk untranslated]
  by (simp add: example_defs spec_hasSuccessfulSend_def SUPPORTED_DOCTYPES_def reply_enabled_def)

text \<open>
  The store holds a single record of the quotation, with status \<open>Failed\<close>; no
  successful send exists for the document, and the signal is true.
\<close>

theorem check_email_sent_failed_only_counterexample:
  "communications (enabled_server [sent_record Failed] None) = [sent_record Failed] \<and>
   \<not> spec_hasSuccessfulSend (communications (enabled_server [sent_record Failed] None))
       (doctype quotation_form) (name (doc quotation_form)) \<and>
   fst (check_email_sent (enabled_server [sent_record Failed] None) quotation_form empty_desk)"
  by (simp add: example_defs spec_hasSuccessfulSend_def check_email_sent_def get_count_def
      matches_def sent_filters_def)

subsection \<open>The supported document types\<close>

lemma supported_part_000_seven:
  "set SUPPORTED_DOCTYPES_part_000 =
     {''Quotation'', ''Sales Order'', ''Payment Entry'', ''Purchase Order'', ''Payment Request'',
      ''Sales Invoice'', ''Delivery Note''}"
  by (auto simp: SUPPORTED_DOCTYPES_part_000_def)

lemma supported_five:
  "set SUPPORTED_DOCTYPES =
     set SUPPORTED_DOCTYPES_part_000 - {''Sales Invoice'', ''Delivery Note''}"
  by (auto simp: SUPPORTED_DOCTYPES_part_000_def SUPPORTED_DOCTYPES_def)

lemma outside_seven_no_action:
  "doctype frm \<notin> set SUPPORTED_DOCTYPES_part_000 \<Longrightarrow>
     setup_send_email_button tr srv frm s = s \<and>
     setup_send_email_button_part_000 tr srv frm s = s \<and>
     prompt_send_email_after_submit tr srv frm s = s"
  using supported_five
  by (auto simp: setup_send_email_button_def setup_send_email_button_part_000_def
      prompt_send_email_after_submit_def)

text \<open>
  C2 at a submitted sales invoice on a server that enables every document type.
  The list of \<^verbatim>\<open>send_email_button.js\<close> has five entries and lacks
  \<open>Sales Invoice\<close>, so its \<^verbatim>\<open>setup_send_email_button\<close> adds no button; the unnamed
  script, whose list has all seven, adds \<open>Send Email\<close>.
\<close>

theorem sales_invoice_no_button:
  "doctype invoice_form = ''Sales Invoice'' \<and> docstatus (doc invoice_form) = 1 \<and>
   reply_enabled (api_check_doctype_email_enabled (enabled_server [] None) ''Sales Invoice'') \<and>
   custom_buttons
     (setup_send_email_button untranslated (enabled_server [] None) invoice_form empty_desk) = [] \<and>
   custom_buttons
     (setup_send_email_button_part_000 untranslated (enabled_server [] None) invoice_form
        empty_desk) = [(''Send Email'', ShowSendEmailDialog)]"
  by (simp add: setup_send_email_button_def setup_send_email_button_part_000_def
      SUPPORTED_DOCTYPES_def SUPPORTED_DOCTYPES_part_000_def example_defs reply_enabled_def
      page_defs)

subsection \<open>Documents that are not submitted\<close>

text \<open>
  C3. For a document whose \<^verbatim>\<open>docstatus\<close> is not 1, \<^verbatim>\<open>setup_send_email_button\<close>
  returns at once in both scripts: the page is left as it was, no button is set
  up and the server is not even asked, whatever its configuration says about
  \<open>enabled\<close> (and about \<open>requireSubmitted\<close>, which the client never reads).
\<close>

theorem not_submitted_no_button:
  "docstatus (doc frm) \<noteq> 1 \<Longrightarrow>
     setup_send_email_button tr srv frm s = s \<and>
     setup_send_email_button_part_000 tr srv frm s = s"
  by (simp add: setup_send_email_button_def setup_send_email_button_part_000_def)

theorem not_submitted_no_button_witness:
  "docstatus (doc draft_quotation_form) \<noteq> 1 \<and>
   reply_enabled (api_check_doctype_email_enabled (enabled_server [] None)
     (doctype draft_quotation_form)) \<and>
   setup_send_email_button untranslated (enabled_server [] None) draft_quotation_form empty_desk
     = empty_desk \<and>
   setup_send_email_button_part_000 untranslated (enabled_server [] None) draft_quotation_form
     empty_desk = empty_desk"
  using not_submitted_no_button [of draft_quotation_form untranslated "enabled_server [] None"
      empty_desk]
  by (simp add: draft_quotation_form_def enabled_server_def reply_enabled_def)

subsection \<open>The failure notification\<close>

text \<open>
  C4, as the scripts have it. When the reply of the dispatch carries a result
  whose \<open>success\<close> is false, the failure notification shows that result's message
  text unchanged (it does not pass through the translation lookup). When the
  reply carries no result, the notification shows the translated text
  \<open>Unknown error\<close>.
\<close>

theorem send_document_email_failure_message:
  "(api_send_document_email srv (doctype frm) (name (doc frm)) (to_email v) (cc v)
      (custom_message v) = Some m \<and> \<not> success m \<longrightarrow>
      msgprints (send_document_email tr srv frm v s) =
        msgprints s @
        [\<lparr>msg_title = tr ''Email Failed'', msg_message = message m, msg_indicator = ''red''\<rparr>]) \<and>
   (api_send_document_email srv (doctype frm) (name (doc frm)) (to_email v) (cc v)
      (custom_message v) = None \<longrightarrow>
      msgprints (send_document_email tr srv frm v s) =
        msgprints s @
        [\<lparr>msg_title = tr ''Email Failed'', msg_message = tr ''Unknown error'',
          msg_indicator = ''red''\<rparr>])"
  by (simp add: send_document_email_def Let_def page_defs)

theorem send_document_email_failure_message_witness:
  "msgprints
     (send_document_email untranslated
        (enabled_server [] (Some \<lparr>success = False, message = ''quota exceeded''\<rparr>))
        quotation_form buyer_values empty_desk) =
     [\<lparr>msg_title = ''Email Failed'', msg_message = ''quota exceeded'', msg_indicator = ''red''\<rparr>] \<and>
   msgprints
     (send_document_email untranslated (enabled_server [] None) quotation_form buyer_values
        empty_desk) =
     [\<lparr>msg_title = ''Email Failed'', msg_message = ''Unknown error'', msg_indicator = ''red''\<rparr>]"
  using send_document_email_failure_message [of
      "enabled_server [] (Some \<lparr>success = False, message = ''quota exceeded''\<rparr>)"
      quotation_form buyer_values "\<lparr>success = False, message = ''quota exceeded''\<rparr>"
      untranslated empty_desk]
    send_document_email_failure_message [of "enabled_server [] None"
      quotation_form buyer_values "\<lparr>success = False, message = ''quota exceeded''\<rparr>"
      untranslated empty_desk]
  by (simp add: example_defs)

text \<open>
  The dispatch of the quotation comes back without a result: the notification
  titled \<open>Email Failed\<close> carries the generic text \<open>Unknown error\<close>.
\<close>

theorem send_document_email_no_reply_counterexample:
  "api_send_document_email (enabled_server [] None) (doctype quotation_form)
     (name (doc quotation_form)) (to_email buyer_values) (cc buyer_values)
     (custom_message buyer_values) = None \<and>
   msgprints
     (send_document_email untranslated (enabled_server [] None) quotation_form buyer_values
        empty_desk) =
     [\<lparr>msg_title = ''Email Failed'', msg_message = ''Unknown error'', msg_indicator = ''red''\<rparr>]"
  by (simp add: send_document_email_def example_defs page_defs)

subsection \<open>Ineligible documents\<close>

text \<open>
  C5. When the document type is not in the supported list, or the server's reply
  does not report \<open>enabled\<close>, the hook after submit opens no prompt and no dialog,
  \<^verbatim>\<open>setup_send_email_button\<close> adds no button (every button on the page afterwards
  was there before), and neither function calls the remote method that
  dispatches an email and stores a record.
\<close>

theorem ineligible_silent:
  assumes "doctype frm \<notin> set SUPPORTED_DOCTYPES \<or>
           \<not> reply_enabled (api_check_doctype_email_enabled srv (doctype frm))"
  shows "confirms (prompt_send_email_after_submit tr srv frm s) = confirms s \<and>
         dialogs (prompt_send_email_after_submit tr srv frm s) = dialogs s \<and>
         custom_buttons (prompt_send_email_after_submit tr srv frm s) = custom_buttons s \<and>
         filter writes (calls (prompt_send_email_after_submit tr srv frm s)) =
           filter writes (calls s) \<and>
         set (custom_buttons (setup_send_email_button tr srv frm s)) \<subseteq> set (custom_buttons s) \<and>
         confirms (setup_send_email_button tr srv frm s) = confirms s \<and>
         dialogs (setup_send_email_button tr srv frm s) = dialogs s \<and>
         filter writes (calls (setup_send_email_button tr srv frm s)) = filter writes (calls s)"
proof -
  have "prompt_send_email_after_submit tr srv frm s = s \<or>
      prompt_send_email_after_submit tr srv frm s =
        s\<lparr>calls := calls s @ [CheckDoctypeEmailEnabled (doctype frm)]\<rparr>"
    using assms by (auto simp: prompt_send_email_after_submit_def Let_def page_defs)
  then have after_submit:
    "confirms (prompt_send_email_after_submit tr srv frm s) = confirms s \<and>
     dialogs (prompt_send_email_after_submit tr srv frm s) = dialogs s \<and>
     custom_buttons (prompt_send_email_after_submit tr srv frm s) = custom_buttons s \<and>
     filter writes (calls (prompt_send_email_after_submit tr srv frm s)) =
       filter writes (calls s)"
    by auto
  have "setup_send_email_button tr srv frm s = s \<or>
      setup_send_email_button tr srv frm s =
        s\<lparr>custom_buttons :=
             filter (\<lambda>b. fst b \<noteq> tr ''Resend Email'')
               (filter (\<lambda>b. fst b \<noteq> tr ''Send Email'') (custom_buttons s)),
           calls := calls s @ [CheckDoctypeEmailEnabled (doctype frm)]\<rparr>"
    using assms setup_disabled [of frm srv tr s] setup_not_submitted [of frm tr srv s]
      setup_unsupported [of frm tr srv s] by blast
  then have on_refresh:
    "set (custom_buttons (setup_send_email_button tr srv frm s)) \<subseteq> set (custom_buttons s) \<and>
     confirms (setup_send_email_button tr srv frm s) = confirms s \<and>
     dialogs (setup_send_email_button tr srv frm s) = dialogs s \<and>
     filter writes (calls (setup_send_email_button tr srv frm s)) = filter writes (calls s)"
    by auto
  from after_submit on_refresh show ?thesis by simp
qed

theorem ineligible_silent_witness:
  "doctype issue_form \<notin> set SUPPORTED_DOCTYPES \<and>
   confirms (prompt_send_email_after_submit untranslated (enabled_server [] None) issue_form
     empty_desk) = [] \<and>
   custom_buttons (setup_send_email_button untranslated (enabled_server [] None) issue_form
     empty_desk) = [] \<and>
   \<not> reply_enabled (api_check_doctype_email_enabled disabled_server (doctype quotation_form)) \<and>
   confirms (prompt_send_email_after_submit untranslated disabled_server quotation_form
     empty_desk) = [] \<and>
   custom_buttons (setup_send_email_button untranslated disabled_server quotation_form
     empty_desk) = []"
  using ineligible_silent [of issue_form "enabled_server [] None" untranslated empty_desk]
    ineligible_silent [of quotation_form disabled_server untranslated empty_desk]
  by (simp add: example_defs SUPPORTED_DOCTYPES_def reply_enabled_def)

subsection \<open>Resending\<close>

text \<open>
  C6. For a submitted document of a supported, enabled type with a successful
  send record, \<^verbatim>\<open>setup_send_email_button\<close> still adds the button, labelled
  \<open>Resend Email\<close>, with the action that a first send has (with an empty history
  the button is \<open>Send Email\<close> with the same action). Whatever the stored
  communications are, the actions of the buttons are the same, and the dialog
  and the dispatch behind the action do not depend on them: the history decides
  the label only.
\<close>

theorem resend_never_blocked:
  assumes "docstatus (doc frm) = 1" and "doctype frm \<in> set SUPPORTED_DOCTYPES"
    and "reply_enabled (api_check_doctype_email_enabled srv (doctype frm))"
    and "spec_hasSuccessfulSend (communications srv) (doctype frm) (name (doc frm))"
  shows "custom_buttons (setup_send_email_button tr srv frm s) =
           filter (\<lambda>b. fst b \<noteq> tr ''Resend Email'')
             (filter (\<lambda>b. fst b \<noteq> tr ''Send Email'') (custom_buttons s)) @
           [(tr ''Resend Email'', ShowSendEmailDialog)] \<and>
         custom_buttons (setup_send_email_button tr (srv\<lparr>communications := []\<rparr>) frm s) =
           filter (\<lambda>b. fst b \<noteq> tr ''Resend Email'')
             (filter (\<lambda>b. fst b \<noteq> tr ''Send Email'') (custom_buttons s)) @
           [(tr ''Send Email'', ShowSendEmailDialog)] \<and>
         map snd (custom_buttons (setup_send_email_button tr (srv\<lparr>communications := cs\<rparr>) frm s)) =
           map snd (custom_buttons (setup_send_email_button tr srv frm s)) \<and>
         show_send_email_dialog tr (srv\<lparr>communications := cs\<rparr>) frm s' =
           show_send_email_dialog tr srv frm s' \<and>
         send_document_email tr (srv\<lparr>communications := cs\<rparr>) frm v s' =
           send_document_email tr srv frm v s'"
proof -
  have "\<exists>c \<in> set (communications srv). matches (sent_filters frm) c"
    using assms(4) by (auto simp: spec_hasSuccessfulSend_def list_ex_iff matches_def
        sent_filters_def)
  then have sent: "0 < get_count (communications srv) (sent_filters frm)"
    by (simp add: get_count_pos)
  have resend: "custom_buttons (setup_send_email_button tr srv frm s) =
           filter (\<lambda>b. fst b \<noteq> tr ''Resend Email'')
             (filter (\<lambda>b. fst b \<noteq> tr ''Send Email'') (custom_buttons s)) @
           [(tr ''Resend Email'', ShowSendEmailDialog)]"
    using sent by (simp add: setup_enabled [OF assms(1-3)])
  have enabled': "reply_enabled (api_check_doctype_email_enabled (srv\<lparr>communications := xs\<rparr>)
      (doctype frm))" for xs
    using assms(3) by simp
  have other: "custom_buttons (setup_send_email_button tr (srv\<lparr>communications := xs\<rparr>) frm s) =
           filter (\<lambda>b. fst b \<noteq> tr ''Resend Email'')
             (filter (\<lambda>b. fst b \<noteq> tr ''Send Email'') (custom_buttons s)) @
           [(if 0 < get_count xs (sent_filters frm)
             then tr ''Resend Email'' else tr ''Send Email'', ShowSendEmailDialog)]" for xs
    by (simp add: setup_enabled [OF assms(1,2) enabled'])
  have first: "custom_buttons (setup_send_email_button tr (srv\<lparr>communications := []\<rparr>) frm s) =
           filter (\<lambda>b. fst b \<noteq> tr ''Resend Email'')
             (filter (\<lambda>b. fst b \<noteq> tr ''Send Email'') (custom_buttons s)) @
           [(tr ''Send Email'', ShowSendEmailDialog)]"
    by (simp add: other get_count_def)
  have actions: "map snd (custom_buttons (setup_send_email_button tr
        (srv\<lparr>communications := cs\<rparr>) frm s)) =
      map snd (custom_buttons (setup_send_email_button tr srv frm s))"
    by (simp add: other resend)
  have flow: "show_send_email_dialog tr (srv\<lparr>communications := cs\<rparr>) frm s' =
           show_send_email_dialog tr srv frm s' \<and>
         send_document_email tr (srv\<lparr>communications := cs\<rparr>) frm v s' =
           send_document_email tr srv frm v s'"
    by (simp add: show_send_email_dialog_def send_document_email_def)
  from resend first actions flow show ?thesis by simp
qed

theorem resend_never_blocked_witness:
  "spec_hasSuccessfulSend (communications (enabled_server [sent_record Success] None))
     (doctype quotation_form) (name (doc quotation_form)) \<and>
   custom_buttons (setup_send_email_button untranslated
     (enabled_server [sent_record Success] None) quotation_form empty_desk) =
     [(''Resend Email'', ShowSendEmailDialog)] \<and>
   custom_buttons (setup_send_email_button untranslated
     (enabled_server [] None) quotation_form empty_desk) =
     [(''Send Email'', ShowSendEmailDialog)]"
  using resend_never_blocked [of quotation_form "enabled_server [sent_record Success] None"
      untranslated empty_desk "[]" empty_desk buyer_values]
  by (simp add: example_defs spec_hasSuccessfulSend_def SUPPORTED_DOCTYPES_def reply_enabled_def)

subsection \<open>The suggested recipient\<close>




subsection \<open>Print formats offered for a configuration row\<close>

text \<open>
  C8, as the scripts have it. For a configuration row whose \<^verbatim>\<open>doctype_name\<close> is
  set, the print formats offered are exactly the stored formats that are not
  disabled and whose \<^verbatim>\<open>doc_type\<close> is the row's \<^verbatim>\<open>doctype_name\<close>, so a print format
  picked for such a row belongs to the row's document type when it is picked.
  For a row whose \<^verbatim>\<open>doctype_name\<close> is not set the query applies no filter: every
  stored format is offered and can be picked. The handler that runs when the
  row's \<^verbatim>\<open>doctype_name\<close> changes leaves the stored print format as it is.
\<close>

theorem print_format_choices_constrained:
  "(doctype_name row \<noteq> '''' \<longrightarrow>
      print_format_choices pfs row =
        filter (\<lambda>p. doc_type p = doctype_name row \<and> disabled p = 0) pfs \<and>
      (\<forall>q \<in> set (print_format_choices pfs row). doc_type q = doctype_name row \<and> disabled q = 0) \<and>
      (\<forall>row'. pick_print_format pfs p row = Some row' \<longrightarrow>
         print_format row' = pf_name p \<and> doctype_name row' = doctype_name row \<and>
         doc_type p = doctype_name row' \<and> disabled p = 0 \<and>
         spec_printFormat_belongs pfs row')) \<and>
   (doctype_name row = '''' \<longrightarrow>
      print_format_choices pfs row = pfs \<and>
      (p \<in> set pfs \<longrightarrow> pick_print_format pfs p row = Some (row\<lparr>print_format := pf_name p\<rparr>))) \<and>
   print_format (doctype_name_changed get_doctype_defaults row) = print_format row \<and>
   doctype_name (doctype_name_changed get_doctype_defaults row) = doctype_name row"
proof -
  have choices: "print_format_choices pfs row =
      filter (\<lambda>p. doc_type p = doctype_name row \<and> disabled p = 0) pfs"
    if "doctype_name row \<noteq> ''''"
    using that by (simp add: print_format_choices_def print_format_query_def)
  have offered: "\<forall>q \<in> set (print_format_choices pfs row).
      doc_type q = doctype_name row \<and> disabled q = 0"
    if "doctype_name row \<noteq> ''''"
    by (simp add: choices [OF that])
  have picked: "\<forall>row'. pick_print_format pfs p row = Some row' \<longrightarrow>
      print_format row' = pf_name p \<and> doctype_name row' = doctype_name row \<and>
      doc_type p = doctype_name row' \<and> disabled p = 0 \<and> spec_printFormat_belongs pfs row'"
    if named: "doctype_name row \<noteq> ''''"
  proof (intro allI impI)
    fix row'
    assume "pick_print_format pfs p row = Some row'"
    then have p_offered: "p \<in> set (print_format_choices pfs row)"
      and row': "row' = row\<lparr>print_format := pf_name p\<rparr>"
      by (simp_all add: pick_print_format_def split: if_splits)
    from p_offered have p: "p \<in> set pfs" "doc_type p = doctype_name row" "disabled p = 0"
      by (simp_all add: choices [OF named])
    have "list_ex (\<lambda>q. pf_name q = pf_name p \<and> doc_type q = doctype_name row) pfs"
      unfolding list_ex_iff using p(1,2) by blast
    then have "spec_printFormat_belongs pfs row'"
      by (simp add: spec_printFormat_belongs_def row')
    with p row' show "print_format row' = pf_name p \<and> doctype_name row' = doctype_name row \<and>
      doc_type p = doctype_name row' \<and> disabled p = 0 \<and> spec_printFormat_belongs pfs row'"
      by simp
  qed
  have unset: "print_format_choices pfs row = pfs"
    if "doctype_name row = ''''"
    using that by (simp add: print_format_choices_def print_format_query_def)
  have pick_unset: "p \<in> set pfs \<longrightarrow>
      pick_print_format pfs p row = Some (row\<lparr>print_format := pf_name p\<rparr>)"
    if "doctype_name row = ''''"
    by (simp add: pick_print_format_def unset [OF that])
  have kept: "print_format (doctype_name_changed get_doctype_defaults row) = print_format row"
    by (simp add: doctype_name_changed_def split: option.splits)
  have same: "doctype_name (doctype_name_changed get_doctype_defaults row) = doctype_name row"
    by (simp add: doctype_name_changed_def split: option.splits)
  show ?thesis
    using choices offered picked unset pick_unset kept same by blast
qed

theorem print_format_choices_constrained_witness:
  "print_format_choices stored_formats (plain_row ''Quotation'' '''') = [quotation_bold] \<and>
   pick_print_format stored_formats quotation_bold (plain_row ''Quotation'' '''') =
     Some (plain_row ''Quotation'' ''Quotation Bold'') \<and>
   spec_printFormat_belongs stored_formats (plain_row ''Quotation'' ''Quotation Bold'') \<and>
   print_format_choices stored_formats (plain_row '''' '''') = stored_formats \<and>
   print_format (doctype_name_changed contact_defaults (plain_row ''Quotation'' ''Quotation Bold''))
     = ''Quotation Bold''"
proof -
  have named: "doctype_name (plain_row ''Quotation'' '''') \<noteq> ''''"
    by (simp add: plain_row_def)
  have blank: "doctype_name (plain_row '''' '''') = ''''"
    by (simp add: plain_row_def)
  have pick: "pick_print_format stored_formats quotation_bold (plain_row ''Quotation'' '''') =
      Some (plain_row ''Quotation'' ''Quotation Bold'')"
    by (simp add: pick_print_format_def print_format_choices_def print_format_query_def
        plain_row_def stored_formats_def old_order_layout_def order_layout_def
        quotation_bold_def quotation_draft_def)
  have "print_format_choices stored_formats (plain_row ''Quotation'' '''') =
      filter (\<lambda>p. doc_type p = doctype_name (plain_row ''Quotation'' '''') \<and> disabled p = 0)
        stored_formats"
    using print_format_choices_constrained [of "plain_row ''Quotation'' ''''" stored_formats
        quotation_bold contact_defaults] named by blast
  then have offered:
    "print_format_choices stored_formats (plain_row ''Quotation'' '''') = [quotation_bold]"
    by (simp add: plain_row_def stored_formats_def old_order_layout_def order_layout_def
        quotation_bold_def quotation_draft_def)
  have belongs:
    "spec_printFormat_belongs stored_formats (plain_row ''Quotation'' ''Quotation Bold'')"
    using print_format_choices_constrained [of "plain_row ''Quotation'' ''''" stored_formats
        quotation_bold contact_defaults] named pick by blast
  have all_offered: "print_format_choices stored_formats (plain_row '''' '''') = stored_formats"
    using print_format_choices_constrained [of "plain_row '''' ''''" stored_formats
        quotation_bold contact_defaults] blank by blast
  have "print_format (doctype_name_changed contact_defaults
      (plain_row ''Quotation'' ''Quotation Bold'')) =
      print_format (plain_row ''Quotation'' ''Quotation Bold'')"
    using print_format_choices_constrained [of "plain_row ''Quotation'' ''Quotation Bold''"
        stored_formats quotation_bold contact_defaults] by blast
  then have kept: "print_format (doctype_name_changed contact_defaults
      (plain_row ''Quotation'' ''Quotation Bold'')) = ''Quotation Bold''"
    by (simp add: plain_row_def)
  from offered pick belongs all_offered kept show ?thesis by blast
qed

text \<open>
  Two rows whose stored print format does not belong to the row's document
  type. A row that names no document type is offered every stored format, the
  disabled layout of sales orders among them, and picking it stores it. A row
  of sales orders holds a layout of sales orders; when the row is changed to
  quotations, the handler fills in the recipient defaults and keeps the layout.
\<close>

theorem print_format_choices_unset_counterexample:
  "print_format_choices stored_formats (plain_row '''' '''') = stored_formats \<and>
   pick_print_format stored_formats old_order_layout (plain_row '''' '''') =
     Some (plain_row '''' ''Old Order Layout'') \<and>
   doc_type old_order_layout = ''Sales Order'' \<and> disabled old_order_layout = 1 \<and>
   \<not> spec_printFormat_belongs stored_formats (plain_row '''' ''Old Order Layout'') \<and>
   pick_print_format stored_formats order_layout (plain_row ''Sales Order'' '''') =
     Some (plain_row ''Sales Order'' ''Order Layout'') \<and>
   doctype_name_changed contact_defaults (plain_row ''Quotation'' ''Order Layout'') =
     \<lparr>doctype_name = ''Quotation'', print_format = ''Order Layout'',
      recipient_field = ''contact_email'', recipient_doctype = '''', source_app = ''erpnext''\<rparr> \<and>
   \<not> spec_printFormat_belongs stored_formats
       (doctype_name_changed contact_defaults (plain_row ''Quotation'' ''Order Layout''))"
  by (simp add: print_format_choices_def print_format_query_def pick_print_format_def
      doctype_name_changed_def spec_printFormat_belongs_def or_empty_def contact_defaults_def
      plain_row_def stored_formats_def old_order_layout_def order_layout_def
      quotation_bold_def quotation_draft_def)

subsection \<open>Repeating the eligibility check\<close>

lemma setup_buttons_idem:
  "custom_buttons (setup_send_email_button tr srv frm (setup_send_email_button tr srv frm s)) =
   custom_buttons (setup_send_email_button tr srv frm s)"
proof (cases "docstatus (doc frm) = 1 \<and> doctype frm \<in> set SUPPORTED_DOCTYPES")
  case False
  then have "setup_send_email_button tr srv frm t = t" for t
    using setup_not_submitted setup_unsupported by blast
  then show ?thesis by simp
next
  case True
  show ?thesis
  proof (cases "reply_enabled (api_check_doctype_email_enabled srv (doctype frm))")
    case True
    with \<open>docstatus (doc frm) = 1 \<and> doctype frm \<in> set SUPPORTED_DOCTYPES\<close> show ?thesis
      by (auto simp: setup_enabled intro: filter_cong)
  next
    case False
    with \<open>docstatus (doc frm) = 1 \<and> doctype frm \<in> set SUPPORTED_DOCTYPES\<close> show ?thesis
      by (auto simp: setup_disabled intro: filter_cong)
  qed
qed

lemma setup_reads_only:
  "filter writes (calls (setup_send_email_button tr srv frm s)) = filter writes (calls s) \<and>
   confirms (setup_send_email_button tr srv frm s) = confirms s \<and>
   dialogs (setup_send_email_button tr srv frm s) = dialogs s \<and>
   alerts (setup_send_email_button tr srv frm s) = alerts s \<and>
   msgprints (setup_send_email_button tr srv frm s) = msgprints s \<and>
   reloads (setup_send_email_button tr srv frm s) = reloads s"
  by (simp add: setup_send_email_button_def Let_def page_defs)

text \<open>
  C9. Running \<^verbatim>\<open>setup_send_email_button\<close> a second time on the page it has
  produced, with the same server and document, leaves the same buttons with the
  same labels; the already-sent signal of \<^verbatim>\<open>check_email_sent\<close> is the same when
  it is asked again or asked after the setup. Both functions only query: they
  call no remote method that writes, and the setup changes nothing on the page
  but the form's buttons.
\<close>

theorem eligibility_check_idempotent:
  "custom_buttons (setup_send_email_button tr srv frm (setup_send_email_button tr srv frm s)) =
     custom_buttons (setup_send_email_button tr srv frm s) \<and>
   fst (check_email_sent srv frm (snd (check_email_sent srv frm s))) =
     fst (check_email_sent srv frm s) \<and>
   fst (check_email_sent srv frm (setup_send_email_button tr srv frm s)) =
     fst (check_email_sent srv frm s) \<and>
   filter writes (calls (setup_send_email_button tr srv frm s)) = filter writes (calls s) \<and>
   filter writes (calls (snd (check_email_sent srv frm s))) = filter writes (calls s) \<and>
   custom_buttons (snd (check_email_sent srv frm s)) = custom_buttons s \<and>
   confirms (setup_send_email_button tr srv frm s) = confirms s \<and>
   dialogs (setup_send_email_button tr srv frm s) = dialogs s \<and>
   alerts (setup_send_email_button tr srv frm s) = alerts s \<and>
   msgprints (setup_send_email_button tr srv frm s) = msgprints s \<and>
   reloads (setup_send_email_button tr srv frm s) = reloads s"
  using setup_buttons_idem [of tr srv frm s] setup_reads_only [of tr srv frm s]
  by (simp add: check_email_sent_def page_defs)

theorem eligibility_check_idempotent_witness:
  "custom_buttons (setup_send_email_button untranslated (enabled_server [sent_record Success] None)
     quotation_form (setup_send_email_button untranslated
       (enabled_server [sent_record Success] None) quotation_form empty_desk)) =
     [(''Resend Email'', ShowSendEmailDialog)] \<and>
   custom_buttons (setup_send_email_button untranslated (enabled_server [sent_record Success] None)
     quotation_form empty_desk) = [(''Resend Email'', ShowSendEmailDialog)]"
  using eligibility_check_idempotent [of untranslated "enabled_server [sent_record Success] None"
      quotation_form empty_desk]
  by (simp add: example_defs setup_send_email_button_def SUPPORTED_DOCTYPES_def
      reply_enabled_def page_defs get_count_def matches_def sent_filters_def)

subsection \<open>At most one send button\<close>

lemma setup_passed_send_buttons:
  assumes "docstatus (doc frm) = 1" and "doctype frm \<in> set SUPPORTED_DOCTYPES"
  shows "send_buttons tr (setup_send_email_button tr srv frm s) \<in>
     {[], [(tr ''Send Email'', ShowSendEmailDialog)], [(tr ''Resend Email'', ShowSendEmailDialog)]}"
proof (cases "reply_enabled (api_check_doctype_email_enabled srv (doctype frm))")
  case True
  with assms show ?thesis
    by (auto simp: setup_enabled send_buttons_def filter_empty_conv)
next
  case False
  with assms show ?thesis
    by (auto simp: setup_disabled send_buttons_def filter_empty_conv)
qed

lemma setup_send_buttons:
  "send_buttons tr (setup_send_email_button tr srv frm s) = send_buttons tr s \<or>
   send_buttons tr (setup_send_email_button tr srv frm s) \<in>
     {[], [(tr ''Send Email'', ShowSendEmailDialog)], [(tr ''Resend Email'', ShowSendEmailDialog)]}"
proof (cases "docstatus (doc frm) = 1 \<and> doctype frm \<in> set SUPPORTED_DOCTYPES")
  case False
  then have "setup_send_email_button tr srv frm s = s"
    using setup_not_submitted setup_unsupported by blast
  then show ?thesis by simp
next
  case True
  then show ?thesis
    using setup_passed_send_buttons [of frm tr srv s] by blast
qed

lemma refreshes_invariant:
  "send_buttons tr s \<in>
     {[], [(tr ''Send Email'', ShowSendEmailDialog)], [(tr ''Resend Email'', ShowSendEmailDialog)]}
   \<Longrightarrow> send_buttons tr (refreshes tr dt steps s) \<in>
     {[], [(tr ''Send Email'', ShowSendEmailDialog)], [(tr ''Resend Email'', ShowSendEmailDialog)]}"
proof (induction steps arbitrary: s)
  case Nil
  then show ?case by simp
next
  case (Cons step steps)
  obtain srv d where step: "step = (srv, d)" by (cases step)
  have "send_buttons tr (setup_send_email_button tr srv \<lparr>doctype = dt, doc = d\<rparr> s) \<in>
     {[], [(tr ''Send Email'', ShowSendEmailDialog)], [(tr ''Resend Email'', ShowSendEmailDialog)]}"
    using setup_send_buttons [of tr srv "\<lparr>doctype = dt, doc = d\<rparr>" s] Cons.prems by auto
  then show ?case
    using Cons.IH step by simp
qed

text \<open>
  C10. On a form that starts without a send button, after any sequence of
  refreshes (the server and the document may change between them) the page has
  no send button or exactly one, and that one is \<open>Send Email\<close> or
  \<open>Resend Email\<close>. Every run of \<^verbatim>\<open>setup_send_email_button\<close> that passes the two
  guards removes the send buttons it finds before it adds one, so it leaves at
  most one on any page.
\<close>

theorem refreshes_one_send_button:
  "send_buttons tr s = [] \<Longrightarrow>
     send_buttons tr (refreshes tr dt steps s) \<in>
       {[], [(tr ''Send Email'', ShowSendEmailDialog)],
        [(tr ''Resend Email'', ShowSendEmailDialog)]} \<and>
     length (send_buttons tr (refreshes tr dt steps s)) \<le> 1 \<and>
     (docstatus (doc frm) = 1 \<and> doctype frm \<in> set SUPPORTED_DOCTYPES \<longrightarrow>
        length (send_buttons tr (setup_send_email_button tr srv frm t)) \<le> 1)"
  using refreshes_invariant [of tr s dt steps] setup_passed_send_buttons [of frm tr srv t]
  by auto

theorem refreshes_one_send_button_witness:
  "send_buttons untranslated empty_desk = [] \<and>
   send_buttons untranslated
     (refreshes untranslated ''Quotation''
        [(enabled_server [] None, \<lparr>name = ''QTN-001'', docstatus = 1\<rparr>),
         (enabled_server [sent_record Success] None, \<lparr>name = ''QTN-001'', docstatus = 1\<rparr>),
         (enabled_server [sent_record Success] None, \<lparr>name = ''QTN-001'', docstatus = 2\<rparr>)]
        empty_desk) = [(''Resend Email'', ShowSendEmailDialog)]"
  using refreshes_one_send_button [of untranslated empty_desk "''Quotation''"
        "[(enabled_server [] None, \<lparr>name = ''QTN-001'', docstatus = 1\<rparr>),
         (enabled_server [sent_record Success] None, \<lparr>name = ''QTN-001'', docstatus = 1\<rparr>),
         (enabled_server [sent_record Success] None, \<lparr>name = ''QTN-001'', docstatus = 2\<rparr>)]"
        quotation_form "enabled_server [] None" empty_desk]
  by (simp add: example_defs send_buttons_def setup_send_email_button_def SUPPORTED_DOCTYPES_def
      reply_enabled_def page_defs get_count_def matches_def sent_filters_def)

end
